theory Spec2Isabelle
  imports Main
begin

section \<open>Barberian API: the data model of \<open>backend/server/main.py\<close>\<close>

text \<open>
  The service is a set of FastAPI handlers over SQLAlchemy models. Every handler receives a
  database session, runs one query or one insert/update/delete followed by \<open>db.commit()\<close>,
  and returns. The embedding passes the database explicitly: a handler is a function from
  the database (and its arguments) to the database after the request and either an error or
  the value the Python function returns.

  A table is the list of its rows in storage order. A column declared without
  \<open>nullable=False\<close> holds an \<open>option\<close>. A string is the list of the characters of the
  Python \<open>str\<close>, one \<open>char\<close> each, and an integer is Python's unbounded \<open>int\<close>; the
  declared column types \<open>String(n)\<close> and \<open>Integer\<close> bound what an insert accepts.
  The tables \<open>auth_provider\<close> and \<open>user_auth_provider\<close>, which no handler touches, are
  left out, and a table's primary keys are taken not to run out.
\<close>

subsection \<open>Enumerations and scalar types\<close>

datatype AppointmentStatusEnum = pending | confirmed | cancelled | done'

datatype DayOfWeekEnum =
  monday | tuesday | wednesday | thursday | friday | saturday | sunday

text \<open>\<open>datetime.date\<close> as year, month, day; \<open>datetime.time\<close> as hour, minute, second.\<close>

datatype date = Date nat nat nat

datatype time = Time nat nat nat

subsection \<open>SQLAlchemy models: one record per row type\<close>

record Role =
  id_role :: int
  name :: string

record Genre =
  id_genre :: int
  name :: string

record Department =
  id_department :: int
  name :: string

record City =
  id_city :: int
  name :: string
  id_department :: int

record User =
  id_user :: int
  full_name :: string
  email :: string
  password_hash :: "string option"
  id_role :: "int option"

record Specialty =
  id_specialty :: int
  name :: string
  years_experience :: "int option"

record BarberSchedule =
  id_schedule :: int
  day_of_week :: DayOfWeekEnum
  start_time :: time
  end_time :: time

record Customer =
  id_customer :: int
  id_user :: int
  id_genre :: int
  phone :: "string option"
  direction :: "string option"
  id_department :: int
  id_city :: int

record Staff =
  id_staff :: int
  id_barber :: int

record Barbershop =
  id_barbershop :: int
  id_staff :: int
  phone :: "string option"

record Barber =
  id_barber :: int
  id_user :: int
  id_genre :: int
  id_barbershop :: "int option"
  id_specialty :: "int option"
  id_department :: int
  id_city :: int
  id_barber_schedule :: "int option"
  phone :: "string option"
  direction :: "string option"
  points :: int

record Location =
  id_location :: int
  id_barbershop :: int
  id_department :: int
  id_city :: int
  address :: string
  opening_hour :: time
  closing_hour :: time

record Appointment =
  id_appointment :: int
  id_customer :: int
  id_barber :: int
  appointment_date :: date
  start_time :: time
  end_time :: time
  status :: "AppointmentStatusEnum option"

subsection \<open>Pydantic schemas\<close>

text \<open>
  A \<open>...Create\<close> class that only says \<open>pass\<close> is its base class; \<open>UserCreate\<close> adds
  the password, and the two response classes a claim reads add the generated identifier.
\<close>

record RoleBase =
  name :: string

type_synonym RoleCreate = RoleBase

record RoleResponse = RoleBase +
  id_role :: int

record GenreBase =
  name :: string

type_synonym GenreCreate = GenreBase

record DepartmentBase =
  name :: string

type_synonym DepartmentCreate = DepartmentBase

record CityBase =
  name :: string
  id_department :: int

type_synonym CityCreate = CityBase

record UserBase =
  full_name :: string
  email :: string
  id_role :: "int option"

record UserCreate = UserBase +
  password :: string

record UserResponse = UserBase +
  id_user :: int
  role :: "RoleResponse option"

record CustomerBase =
  id_user :: int
  id_genre :: int
  phone :: "string option"
  direction :: "string option"
  id_department :: int
  id_city :: int

type_synonym CustomerCreate = CustomerBase

record SpecialtyBase =
  name :: string
  years_experience :: "int option"

type_synonym SpecialtyCreate = SpecialtyBase

record BarberScheduleBase =
  day_of_week :: DayOfWeekEnum
  start_time :: time
  end_time :: time

type_synonym BarberScheduleCreate = BarberScheduleBase

record BarberBase =
  id_user :: int
  id_genre :: int
  id_barbershop :: "int option"
  id_specialty :: "int option"
  id_department :: int
  id_city :: int
  id_barber_schedule :: "int option"
  phone :: "string option"
  direction :: "string option"
  points :: int

type_synonym BarberCreate = BarberBase

record StaffBase =
  id_barber :: int

type_synonym StaffCreate = StaffBase

record BarbershopBase =
  id_staff :: int
  phone :: "string option"

type_synonym BarbershopCreate = BarbershopBase

record LocationBase =
  id_barbershop :: int
  id_department :: int
  id_city :: int
  address :: string
  opening_hour :: time
  closing_hour :: time

type_synonym LocationCreate = LocationBase

record AppointmentBase =
  id_customer :: int
  id_barber :: int
  appointment_date :: date
  start_time :: time
  end_time :: time
  status :: AppointmentStatusEnum

type_synonym AppointmentCreate = AppointmentBase

text \<open>
  The constructor of \<open>AppointmentCreate\<close> as the request body reaches it: the five required
  fields, and \<open>status\<close> either given or omitted; the class default fills an omitted one.
\<close>

definition AppointmentCreate ::
  "int \<Rightarrow> int \<Rightarrow> date \<Rightarrow> time \<Rightarrow> time \<Rightarrow> AppointmentStatusEnum option \<Rightarrow> AppointmentCreate" where
  "AppointmentCreate c b d t1 t2 st =
     \<lparr>AppointmentBase.id_customer = c, AppointmentBase.id_barber = b,
      AppointmentBase.appointment_date = d, AppointmentBase.start_time = t1,
      AppointmentBase.end_time = t2,
      AppointmentBase.status = (case st of None \<Rightarrow> pending | Some v \<Rightarrow> v)\<rparr>"

subsection \<open>The database\<close>

text \<open>The fields are the \<open>__tablename__\<close>s of the models.\<close>

record db =
  roles :: "Role list"
  genres :: "Genre list"
  departments :: "Department list"
  citys :: "City list"
  users :: "User list"
  specialties :: "Specialty list"
  barber_schedule :: "BarberSchedule list"
  customers :: "Customer list"
  staff :: "Staff list"
  barbershops :: "Barbershop list"
  barbers :: "Barber list"
  locations :: "Location list"
  appointment :: "Appointment list"

text \<open>
  What a handler can raise: the \<open>HTTPException\<close>s of the source with status code and detail,
  and the database errors that \<open>db.commit()\<close> or a query lets through (the framework
  answers them with status 500).
\<close>

datatype error = HTTPException nat string | DataError | IntegrityError | ProgrammingError

type_synonym 'a result = "db \<times> (error + 'a)"

type_synonym message = "(string \<times> string) list"

subsection \<open>What the session and the engine do for a handler\<close>

text \<open>
  \<open>autoincrement=True\<close>: the engine gives a new row an identifier above every identifier
  in the table. No claim depends on the value beyond that.
\<close>

definition autoincrement :: "int list \<Rightarrow> int" where
  "autoincrement ids = fold max ids 0 + 1"

text \<open>
  \<open>Column(String(n))\<close> and \<open>Column(Integer)\<close>: the database of \<open>DATABASE_URL\<close> is MySQL,
  which in its default strict mode refuses a string longer than \<open>n\<close> characters and an
  integer outside the signed 32-bit range with a data error. It does so when it builds the
  row, before it looks at any index or foreign key. NULL fits every column type.
\<close>

definition Column_String :: "nat \<Rightarrow> string \<Rightarrow> bool" where
  "Column_String n v = (length v \<le> n)"

definition Column_Integer :: "int \<Rightarrow> bool" where
  "Column_Integer v = (- 2147483648 \<le> v \<and> v \<le> 2147483647)"

definition Column_String_opt :: "nat \<Rightarrow> string option \<Rightarrow> bool" where
  "Column_String_opt n v = (case v of None \<Rightarrow> True | Some x \<Rightarrow> Column_String n x)"

definition Column_Integer_opt :: "int option \<Rightarrow> bool" where
  "Column_Integer_opt v = (case v of None \<Rightarrow> True | Some x \<Rightarrow> Column_Integer x)"

text \<open>
  \<open>ForeignKey(...)\<close>: the column's value, when it is not NULL, is a key present in the
  referenced table.
\<close>

definition foreign_key :: "int \<Rightarrow> int list \<Rightarrow> bool" where
  "foreign_key k ids = (k \<in> set ids)"

definition foreign_key_opt :: "int option \<Rightarrow> int list \<Rightarrow> bool" where
  "foreign_key_opt k ids = (case k of None \<Rightarrow> True | Some v \<Rightarrow> foreign_key v ids)"

text \<open>
  \<open>.offset(skip).limit(limit).all()\<close>: the engine rejects a negative offset or row count;
  otherwise the rows after the first \<open>skip\<close>, at most \<open>limit\<close> of them.
\<close>

definition offset_limit :: "int \<Rightarrow> int \<Rightarrow> 'a list \<Rightarrow> error + 'a list" where
  "offset_limit skip limit rows =
     (if skip < 0 \<or> limit < 0 then Inl ProgrammingError
      else Inr (take (nat limit) (drop (nat skip) rows)))"

subsection \<open>Endpoints for roles, genres and departments\<close>

definition create_role :: "db \<Rightarrow> RoleCreate \<Rightarrow> Role result" where
  "create_role s role' =
     (let db_role = \<lparr>Role.id_role = autoincrement (map Role.id_role (roles s)),
                     Role.name = RoleBase.name role'\<rparr>
      in if \<not> (Column_String 100 (Role.name db_role))
         then (s, Inl DataError)
         else (s\<lparr>roles := roles s @ [db_role]\<rparr>, Inr db_role))"

definition read_roles :: "db \<Rightarrow> int \<Rightarrow> int \<Rightarrow> Role list result" where
  "read_roles s skip limit = (s, offset_limit skip limit (roles s))"

definition create_genre :: "db \<Rightarrow> GenreCreate \<Rightarrow> Genre result" where
  "create_genre s genre =
     (let db_genre = \<lparr>Genre.id_genre = autoincrement (map Genre.id_genre (genres s)),
                      Genre.name = GenreBase.name genre\<rparr>
      in if \<not> (Column_String 50 (Genre.name db_genre))
         then (s, Inl DataError)
         else (s\<lparr>genres := genres s @ [db_genre]\<rparr>, Inr db_genre))"

definition read_genres :: "db \<Rightarrow> int \<Rightarrow> int \<Rightarrow> Genre list result" where
  "read_genres s skip limit = (s, offset_limit skip limit (genres s))"

definition create_department :: "db \<Rightarrow> DepartmentCreate \<Rightarrow> Department result" where
  "create_department s department =
     (let db_department =
            \<lparr>Department.id_department =
               autoincrement (map Department.id_department (departments s)),
             Department.name = DepartmentBase.name department\<rparr>
      in if \<not> (Column_String 100 (Department.name db_department))
         then (s, Inl DataError)
         else (s\<lparr>departments := departments s @ [db_department]\<rparr>, Inr db_department))"

definition read_departments :: "db \<Rightarrow> int \<Rightarrow> int \<Rightarrow> Department list result" where
  "read_departments s skip limit = (s, offset_limit skip limit (departments s))"

subsection \<open>Endpoints for cities\<close>

definition create_city :: "db \<Rightarrow> CityCreate \<Rightarrow> City result" where
  "create_city s city =
     (let db_city = \<lparr>City.id_city = autoincrement (map City.id_city (citys s)),
                     City.name = CityBase.name city,
                     City.id_department = CityBase.id_department city\<rparr>
      in if \<not> (Column_String 100 (City.name db_city)
                 \<and> Column_Integer (City.id_department db_city))
         then (s, Inl DataError)
         else if foreign_key (City.id_department db_city)
              (map Department.id_department (departments s))
         then (s\<lparr>citys := citys s @ [db_city]\<rparr>, Inr db_city)
         else (s, Inl IntegrityError))"

definition read_cities :: "db \<Rightarrow> int \<Rightarrow> int \<Rightarrow> City list result" where
  "read_cities s skip limit = (s, offset_limit skip limit (citys s))"

definition read_cities_by_department :: "db \<Rightarrow> int \<Rightarrow> City list result" where
  "read_cities_by_department s department_id =
     (s, Inr (filter (\<lambda>c. City.id_department c = department_id) (citys s)))"

subsection \<open>Endpoints for users\<close>

text \<open>
  \<open>create_user\<close> moves the payload's \<open>password\<close> to the key \<open>password_hash\<close> and builds
  the row from the dictionary. The commit fails on a value that does not fit its column, on
  the unique index of \<open>email\<close> and on the foreign key \<open>id_role\<close>; the exception leaves
  the handler and the session is closed without a commit.
\<close>

definition create_user :: "db \<Rightarrow> UserCreate \<Rightarrow> User result" where
  "create_user s user =
     (let password' = UserCreate.password user;
          db_user = \<lparr>User.id_user = autoincrement (map User.id_user (users s)),
                     User.full_name = UserBase.full_name user,
                     User.email = UserBase.email user,
                     User.password_hash = Some password',
                     User.id_role = UserBase.id_role user\<rparr>
      in if \<not> (Column_String 255 (User.full_name db_user)
                 \<and> Column_String 255 (User.email db_user)
                 \<and> Column_String_opt 255 (User.password_hash db_user)
                 \<and> Column_Integer_opt (User.id_role db_user))
         then (s, Inl DataError)
         else if User.email db_user \<notin> set (map User.email (users s))
            \<and> foreign_key_opt (User.id_role db_user) (map Role.id_role (roles s))
         then (s\<lparr>users := users s @ [db_user]\<rparr>, Inr db_user)
         else (s, Inl IntegrityError))"

definition read_users :: "db \<Rightarrow> int \<Rightarrow> int \<Rightarrow> User list result" where
  "read_users s skip limit = (s, offset_limit skip limit (users s))"

definition read_user :: "db \<Rightarrow> int \<Rightarrow> User result" where
  "read_user s user_id =
     (case find (\<lambda>u. User.id_user u = user_id) (users s) of
        None \<Rightarrow> (s, Inl (HTTPException 404 ''User not found''))
      | Some user \<Rightarrow> (s, Inr user))"





subsection \<open>Endpoints for customers, specialties and barber schedules\<close>

definition create_customer :: "db \<Rightarrow> CustomerCreate \<Rightarrow> Customer result" where
  "create_customer s customer =
     (let db_customer =
            \<lparr>Customer.id_customer = autoincrement (map Customer.id_customer (customers s)),
             Customer.id_user = CustomerBase.id_user customer,
             Customer.id_genre = CustomerBase.id_genre customer,
             Customer.phone = CustomerBase.phone customer,
             Customer.direction = CustomerBase.direction customer,
             Customer.id_department = CustomerBase.id_department customer,
             Customer.id_city = CustomerBase.id_city customer\<rparr>
      in if \<not> (Column_Integer (Customer.id_user db_customer)
                 \<and> Column_Integer (Customer.id_genre db_customer)
                 \<and> Column_String_opt 255 (Customer.phone db_customer)
                 \<and> Column_String_opt 255 (Customer.direction db_customer)
                 \<and> Column_Integer (Customer.id_department db_customer)
                 \<and> Column_Integer (Customer.id_city db_customer))
         then (s, Inl DataError)
         else if foreign_key (Customer.id_user db_customer) (map User.id_user (users s))
            \<and> foreign_key (Customer.id_genre db_customer) (map Genre.id_genre (genres s))
            \<and> foreign_key (Customer.id_department db_customer)
                  (map Department.id_department (departments s))
            \<and> foreign_key (Customer.id_city db_customer) (map City.id_city (citys s))
         then (s\<lparr>customers := customers s @ [db_customer]\<rparr>, Inr db_customer)
         else (s, Inl IntegrityError))"

definition read_customers :: "db \<Rightarrow> int \<Rightarrow> int \<Rightarrow> Customer list result" where
  "read_customers s skip limit = (s, offset_limit skip limit (customers s))"

definition read_customer :: "db \<Rightarrow> int \<Rightarrow> Customer result" where
  "read_customer s customer_id =
     (case find (\<lambda>c. Customer.id_customer c = customer_id) (customers s) of
        None \<Rightarrow> (s, Inl (HTTPException 404 ''Customer not found''))
      | Some customer \<Rightarrow> (s, Inr customer))"

definition create_specialty :: "db \<Rightarrow> SpecialtyCreate \<Rightarrow> Specialty result" where
  "create_specialty s specialty =
     (let db_specialty =
            \<lparr>Specialty.id_specialty =
               autoincrement (map Specialty.id_specialty (specialties s)),
             Specialty.name = SpecialtyBase.name specialty,
             Specialty.years_experience = SpecialtyBase.years_experience specialty\<rparr>
      in if \<not> (Column_String 100 (Specialty.name db_specialty)
                 \<and> Column_Integer_opt (Specialty.years_experience db_specialty))
         then (s, Inl DataError)
         else (s\<lparr>specialties := specialties s @ [db_specialty]\<rparr>, Inr db_specialty))"

definition read_specialties :: "db \<Rightarrow> int \<Rightarrow> int \<Rightarrow> Specialty list result" where
  "read_specialties s skip limit = (s, offset_limit skip limit (specialties s))"

definition create_barber_schedule ::
  "db \<Rightarrow> BarberScheduleCreate \<Rightarrow> BarberSchedule result" where
  "create_barber_schedule s schedule =
     (let db_schedule =
            \<lparr>BarberSchedule.id_schedule =
               autoincrement (map BarberSchedule.id_schedule (barber_schedule s)),
             BarberSchedule.day_of_week = BarberScheduleBase.day_of_week schedule,
             BarberSchedule.start_time = BarberScheduleBase.start_time schedule,
             BarberSchedule.end_time = BarberScheduleBase.end_time schedule\<rparr>
      in (s\<lparr>barber_schedule := barber_schedule s @ [db_schedule]\<rparr>, Inr db_schedule))"

definition read_barber_schedules :: "db \<Rightarrow> int \<Rightarrow> int \<Rightarrow> BarberSchedule list result" where
  "read_barber_schedules s skip limit = (s, offset_limit skip limit (barber_schedule s))"

subsection \<open>Endpoints for barbers\<close>

definition create_barber :: "db \<Rightarrow> BarberCreate \<Rightarrow> Barber result" where
  "create_barber s barber =
     (let db_barber =
            \<lparr>Barber.id_barber = autoincrement (map Barber.id_barber (barbers s)),
             Barber.id_user = BarberBase.id_user barber,
             Barber.id_genre = BarberBase.id_genre barber,
             Barber.id_barbershop = BarberBase.id_barbershop barber,
             Barber.id_specialty = BarberBase.id_specialty barber,
             Barber.id_department = BarberBase.id_department barber,
             Barber.id_city = BarberBase.id_city barber,
             Barber.id_barber_schedule = BarberBase.id_barber_schedule barber,
             Barber.phone = BarberBase.phone barber,
             Barber.direction = BarberBase.direction barber,
             Barber.points = BarberBase.points barber\<rparr>
      in if \<not> (Column_Integer (Barber.id_user db_barber)
                 \<and> Column_Integer (Barber.id_genre db_barber)
                 \<and> Column_Integer_opt (Barber.id_barbershop db_barber)
                 \<and> Column_Integer_opt (Barber.id_specialty db_barber)
                 \<and> Column_Integer (Barber.id_department db_barber)
                 \<and> Column_Integer (Barber.id_city db_barber)
                 \<and> Column_Integer_opt (Barber.id_barber_schedule db_barber)
                 \<and> Column_String_opt 255 (Barber.phone db_barber)
                 \<and> Column_String_opt 255 (Barber.direction db_barber)
                 \<and> Column_Integer (Barber.points db_barber))
         then (s, Inl DataError)
         else if foreign_key (Barber.id_user db_barber) (map User.id_user (users s))
            \<and> foreign_key (Barber.id_genre db_barber) (map Genre.id_genre (genres s))
            \<and> foreign_key_opt (Barber.id_barbershop db_barber)
                  (map Barbershop.id_barbershop (barbershops s))
            \<and> foreign_key_opt (Barber.id_specialty db_barber)
                  (map Specialty.id_specialty (specialties s))
            \<and> foreign_key (Barber.id_department db_barber)
                  (map Department.id_department (departments s))
            \<and> foreign_key (Barber.id_city db_barber) (map City.id_city (citys s))
            \<and> foreign_key_opt (Barber.id_barber_schedule db_barber)
                  (map BarberSchedule.id_schedule (barber_schedule s))
         then (s\<lparr>barbers := barbers s @ [db_barber]\<rparr>, Inr db_barber)
         else (s, Inl IntegrityError))"

definition read_barbers :: "db \<Rightarrow> int \<Rightarrow> int \<Rightarrow> Barber list result" where
  "read_barbers s skip limit = (s, offset_limit skip limit (barbers s))"

definition read_barber :: "db \<Rightarrow> int \<Rightarrow> Barber result" where
  "read_barber s barber_id =
     (case find (\<lambda>b. Barber.id_barber b = barber_id) (barbers s) of
        None \<Rightarrow> (s, Inl (HTTPException 404 ''Barber not found''))
      | Some barber \<Rightarrow> (s, Inr barber))"

definition read_barbers_by_city :: "db \<Rightarrow> int \<Rightarrow> Barber list result" where
  "read_barbers_by_city s city_id =
     (s, Inr (filter (\<lambda>b. Barber.id_city b = city_id) (barbers s)))"

subsection \<open>Endpoints for staff\<close>

definition create_staff :: "db \<Rightarrow> StaffCreate \<Rightarrow> Staff result" where
  "create_staff s staff' =
     (let db_staff = \<lparr>Staff.id_staff = autoincrement (map Staff.id_staff (staff s)),
                      Staff.id_barber = StaffBase.id_barber staff'\<rparr>
      in if \<not> (Column_Integer (Staff.id_barber db_staff))
         then (s, Inl DataError)
         else if foreign_key (Staff.id_barber db_staff) (map Barber.id_barber (barbers s))
         then (s\<lparr>staff := staff s @ [db_staff]\<rparr>, Inr db_staff)
         else (s, Inl IntegrityError))"

definition read_staff :: "db \<Rightarrow> int \<Rightarrow> int \<Rightarrow> Staff list result" where
  "read_staff s skip limit = (s, offset_limit skip limit (staff s))"

definition read_staff_by_id :: "db \<Rightarrow> int \<Rightarrow> Staff result" where
  "read_staff_by_id s staff_id =
     (case find (\<lambda>r. Staff.id_staff r = staff_id) (staff s) of
        None \<Rightarrow> (s, Inl (HTTPException 404 ''Staff not found''))
      | Some staff' \<Rightarrow> (s, Inr staff'))"

definition read_staff_by_barber :: "db \<Rightarrow> int \<Rightarrow> Staff result" where
  "read_staff_by_barber s barber_id =
     (case find (\<lambda>r. Staff.id_barber r = barber_id) (staff s) of
        None \<Rightarrow> (s, Inl (HTTPException 404 ''Staff not found for this barber''))
      | Some staff' \<Rightarrow> (s, Inr staff'))"

text \<open>
  \<open>db.delete(staff); db.commit()\<close>. \<open>Barbershop.id_staff\<close> is declared
  \<open>ForeignKey("staff.id_staff"), nullable=False\<close> and the relationship
  \<open>Staff.barbershops\<close> has no delete cascade: while a barbershop row holds the staff row's
  key, the flush can neither blank the column nor remove the referenced row, the commit
  raises and the session is closed without a commit. Otherwise the row with that primary
  key leaves the table.
\<close>

definition delete_staff :: "db \<Rightarrow> int \<Rightarrow> message result" where
  "delete_staff s staff_id =
     (case find (\<lambda>r. Staff.id_staff r = staff_id) (staff s) of
        None \<Rightarrow> (s, Inl (HTTPException 404 ''Staff not found''))
      | Some staff' \<Rightarrow>
          if Staff.id_staff staff' \<in> set (map Barbershop.id_staff (barbershops s))
          then (s, Inl IntegrityError)
          else (s\<lparr>staff := filter (\<lambda>r. Staff.id_staff r \<noteq> Staff.id_staff staff') (staff s)\<rparr>,
                Inr [(''message'', ''Staff deleted successfully'')]))"

subsection \<open>Endpoints for barbershops and locations\<close>

definition create_barbershop :: "db \<Rightarrow> BarbershopCreate \<Rightarrow> Barbershop result" where
  "create_barbershop s barbershop =
     (let db_barbershop =
            \<lparr>Barbershop.id_barbershop =
               autoincrement (map Barbershop.id_barbershop (barbershops s)),
             Barbershop.id_staff = BarbershopBase.id_staff barbershop,
             Barbershop.phone = BarbershopBase.phone barbershop\<rparr>
      in if \<not> (Column_Integer (Barbershop.id_staff db_barbershop)
                 \<and> Column_String_opt 50 (Barbershop.phone db_barbershop))
         then (s, Inl DataError)
         else if foreign_key (Barbershop.id_staff db_barbershop) (map Staff.id_staff (staff s))
         then (s\<lparr>barbershops := barbershops s @ [db_barbershop]\<rparr>, Inr db_barbershop)
         else (s, Inl IntegrityError))"

definition read_barbershops :: "db \<Rightarrow> int \<Rightarrow> int \<Rightarrow> Barbershop list result" where
  "read_barbershops s skip limit = (s, offset_limit skip limit (barbershops s))"

definition create_location :: "db \<Rightarrow> LocationCreate \<Rightarrow> Location result" where
  "create_location s location =
     (let db_location =
            \<lparr>Location.id_location = autoincrement (map Location.id_location (locations s)),
             Location.id_barbershop = LocationBase.id_barbershop location,
             Location.id_department = LocationBase.id_department location,
             Location.id_city = LocationBase.id_city location,
             Location.address = LocationBase.address location,
             Location.opening_hour = LocationBase.opening_hour location,
             Location.closing_hour = LocationBase.closing_hour location\<rparr>
      in if \<not> (Column_Integer (Location.id_barbershop db_location)
                 \<and> Column_Integer (Location.id_department db_location)
                 \<and> Column_Integer (Location.id_city db_location)
                 \<and> Column_String 255 (Location.address db_location))
         then (s, Inl DataError)
         else if foreign_key (Location.id_barbershop db_location)
              (map Barbershop.id_barbershop (barbershops s))
            \<and> foreign_key (Location.id_department db_location)
                  (map Department.id_department (departments s))
            \<and> foreign_key (Location.id_city db_location) (map City.id_city (citys s))
         then (s\<lparr>locations := locations s @ [db_location]\<rparr>, Inr db_location)
         else (s, Inl IntegrityError))"

definition read_locations :: "db \<Rightarrow> int \<Rightarrow> int \<Rightarrow> Location list result" where
  "read_locations s skip limit = (s, offset_limit skip limit (locations s))"

subsection \<open>Endpoints for appointments\<close>

text \<open>
  \<open>Appointment(**appointment.dict())\<close> always passes \<open>status\<close>, so the column default is
  never the one that applies.
\<close>

definition create_appointment :: "db \<Rightarrow> AppointmentCreate \<Rightarrow> Appointment result" where
  "create_appointment s appointment' =
     (let db_appointment =
            \<lparr>Appointment.id_appointment =
               autoincrement (map Appointment.id_appointment (appointment s)),
             Appointment.id_customer = AppointmentBase.id_customer appointment',
             Appointment.id_barber = AppointmentBase.id_barber appointment',
             Appointment.appointment_date = AppointmentBase.appointment_date appointment',
             Appointment.start_time = AppointmentBase.start_time appointment',
             Appointment.end_time = AppointmentBase.end_time appointment',
             Appointment.status = Some (AppointmentBase.status appointment')\<rparr>
      in if \<not> (Column_Integer (Appointment.id_customer db_appointment)
                 \<and> Column_Integer (Appointment.id_barber db_appointment))
         then (s, Inl DataError)
         else if foreign_key (Appointment.id_customer db_appointment)
              (map Customer.id_customer (customers s))
            \<and> foreign_key (Appointment.id_barber db_appointment)
                  (map Barber.id_barber (barbers s))
         then (s\<lparr>appointment := appointment s @ [db_appointment]\<rparr>, Inr db_appointment)
         else (s, Inl IntegrityError))"

definition read_appointments :: "db \<Rightarrow> int \<Rightarrow> int \<Rightarrow> Appointment list result" where
  "read_appointments s skip limit = (s, offset_limit skip limit (appointment s))"

definition read_appointment :: "db \<Rightarrow> int \<Rightarrow> Appointment result" where
  "read_appointment s appointment_id =
     (case find (\<lambda>a. Appointment.id_appointment a = appointment_id) (appointment s) of
        None \<Rightarrow> (s, Inl (HTTPException 404 ''Appointment not found''))
      | Some appointment' \<Rightarrow> (s, Inr appointment'))"

text \<open>
  \<open>appointment.status = status; db.commit()\<close>: the flush writes the column \<open>status\<close> of
  the row with the loaded object's primary key.
\<close>

definition update_appointment_status ::
  "db \<Rightarrow> int \<Rightarrow> AppointmentStatusEnum \<Rightarrow> message result" where
  "update_appointment_status s appointment_id status' =
     (case find (\<lambda>a. Appointment.id_appointment a = appointment_id) (appointment s) of
        None \<Rightarrow> (s, Inl (HTTPException 404 ''Appointment not found''))
      | Some appointment' \<Rightarrow>
          (s\<lparr>appointment :=
               map (\<lambda>a. if Appointment.id_appointment a
                           = Appointment.id_appointment appointment'
                        then a\<lparr>Appointment.status := Some status'\<rparr> else a)
                   (appointment s)\<rparr>,
           Inr [(''message'', ''Appointment status updated successfully'')]))"

definition read_appointments_by_customer :: "db \<Rightarrow> int \<Rightarrow> Appointment list result" where
  "read_appointments_by_customer s customer_id =
     (s, Inr (filter (\<lambda>a. Appointment.id_customer a = customer_id) (appointment s)))"

definition read_appointments_by_barber :: "db \<Rightarrow> int \<Rightarrow> Appointment list result" where
  "read_appointments_by_barber s barber_id =
     (s, Inr (filter (\<lambda>a. Appointment.id_barber a = barber_id) (appointment s)))"

subsection \<open>Root, health and statistics\<close>

definition read_root :: "db \<Rightarrow> message result" where
  "read_root s = (s, Inr [(''message'', ''Welcome to Barberian DB API v2.0'')])"

definition health_check :: "db \<Rightarrow> message result" where
  "health_check s = (s, Inr [(''status'', ''healthy''), (''version'', ''2.0.0'')])"

text \<open>\<open>db.query(X).count()\<close> is the number of rows of the table of \<open>X\<close>.\<close>

definition get_stats :: "db \<Rightarrow> (string \<times> int) list result" where
  "get_stats s =
     (s, Inr [(''users'', int (length (users s))),
              (''customers'', int (length (customers s))),
              (''barbers'', int (length (barbers s))),
              (''staff'', int (length (staff s))),
              (''appointments'', int (length (appointment s))),
              (''barbershops'', int (length (barbershops s))),
              (''specialties'', int (length (specialties s))),
              (''departments'', int (length (departments s))),
              (''cities'', int (length (citys s)))])"

subsection \<open>The application: every route, and the database after a request\<close>

datatype request =
    POST_roles RoleCreate
  | GET_roles int int
  | POST_genres GenreCreate
  | GET_genres int int
  | POST_departments DepartmentCreate
  | GET_departments int int
  | POST_cities CityCreate
  | GET_cities int int
  | GET_cities_by_department int
  | POST_users UserCreate
  | GET_users int int
  | GET_user int
  | POST_customers CustomerCreate
  | GET_customers int int
  | GET_customer int
  | POST_specialties SpecialtyCreate
  | GET_specialties int int
  | POST_barber_schedules BarberScheduleCreate
  | GET_barber_schedules int int
  | POST_barbers BarberCreate
  | GET_barbers int int
  | GET_barber int
  | GET_barbers_by_city int
  | POST_staff StaffCreate
  | GET_staff int int
  | GET_staff_by_id int
  | GET_staff_by_barber int
  | DELETE_staff int
  | POST_barbershops BarbershopCreate
  | GET_barbershops int int
  | POST_locations LocationCreate
  | GET_locations int int
  | POST_appointments AppointmentCreate
  | GET_appointments int int
  | GET_appointment int
  | PATCH_appointment_status int AppointmentStatusEnum
  | GET_appointments_by_customer int
  | GET_appointments_by_barber int
  | GET_root
  | GET_health
  | GET_stats

fun app :: "db \<Rightarrow> request \<Rightarrow> db" where
  "app s (POST_roles p) = fst (create_role s p)"
| "app s (GET_roles skip limit) = fst (read_roles s skip limit)"
| "app s (POST_genres p) = fst (create_genre s p)"
| "app s (GET_genres skip limit) = fst (read_genres s skip limit)"
| "app s (POST_departments p) = fst (create_department s p)"
| "app s (GET_departments skip limit) = fst (read_departments s skip limit)"
| "app s (POST_cities p) = fst (create_city s p)"
| "app s (GET_cities skip limit) = fst (read_cities s skip limit)"
| "app s (GET_cities_by_department k) = fst (read_cities_by_department s k)"
| "app s (POST_users p) = fst (create_user s p)"
| "app s (GET_users skip limit) = fst (read_users s skip limit)"
| "app s (GET_user k) = fst (read_user s k)"
| "app s (POST_customers p) = fst (create_customer s p)"
| "app s (GET_customers skip limit) = fst (read_customers s skip limit)"
| "app s (GET_customer k) = fst (read_customer s k)"
| "app s (POST_specialties p) = fst (create_specialty s p)"
| "app s (GET_specialties skip limit) = fst (read_specialties s skip limit)"
| "app s (POST_barber_schedules p) = fst (create_barber_schedule s p)"
| "app s (GET_barber_schedules skip limit) = fst (read_barber_schedules s skip limit)"
| "app s (POST_barbers p) = fst (create_barber s p)"
| "app s (GET_barbers skip limit) = fst (read_barbers s skip limit)"
| "app s (GET_barber k) = fst (read_barber s k)"
| "app s (GET_barbers_by_city k) = fst (read_barbers_by_city s k)"
| "app s (POST_staff p) = fst (create_staff s p)"
| "app s (GET_staff skip limit) = fst (read_staff s skip limit)"
| "app s (GET_staff_by_id k) = fst (read_staff_by_id s k)"
| "app s (GET_staff_by_barber k) = fst (read_staff_by_barber s k)"
| "app s (DELETE_staff k) = fst (delete_staff s k)"
| "app s (POST_barbershops p) = fst (create_barbershop s p)"
| "app s (GET_barbershops skip limit) = fst (read_barbershops s skip limit)"
| "app s (POST_locations p) = fst (create_location s p)"
| "app s (GET_locations skip limit) = fst (read_locations s skip limit)"
| "app s (POST_appointments p) = fst (create_appointment s p)"
| "app s (GET_appointments skip limit) = fst (read_appointments s skip limit)"
| "app s (GET_appointment k) = fst (read_appointment s k)"
| "app s (PATCH_appointment_status k st) = fst (update_appointment_status s k st)"
| "app s (GET_appointments_by_customer k) = fst (read_appointments_by_customer s k)"
| "app s (GET_appointments_by_barber k) = fst (read_appointments_by_barber s k)"
| "app s GET_root = fst (read_root s)"
| "app s GET_health = fst (health_check s)"
| "app s GET_stats = fst (get_stats s)"

subsection \<open>A database built through the API\<close>

definition empty_db :: db where
  "empty_db =
     \<lparr>roles = [], genres = [], departments = [], citys = [], users = [], specialties = [],
      barber_schedule = [], customers = [], staff = [], barbershops = [], barbers = [],
      locations = [], appointment = []\<rparr>"

definition demo_requests :: "request list" where
  "demo_requests =
     [POST_roles \<lparr>RoleBase.name = ''admin''\<rparr>,
      POST_genres \<lparr>GenreBase.name = ''male''\<rparr>,
      POST_departments \<lparr>DepartmentBase.name = ''Antioquia''\<rparr>,
      POST_cities \<lparr>CityBase.name = ''Medellin'', CityBase.id_department = 1\<rparr>,
      POST_users \<lparr>UserBase.full_name = ''Ana'', UserBase.email = ''ana@example.com'',
                  UserBase.id_role = Some 1, UserCreate.password = ''secret''\<rparr>,
      POST_users \<lparr>UserBase.full_name = ''Luis'', UserBase.email = ''luis@example.com'',
                  UserBase.id_role = None, UserCreate.password = ''hunter2''\<rparr>,
      POST_customers \<lparr>CustomerBase.id_user = 1, CustomerBase.id_genre = 1,
                      CustomerBase.phone = None, CustomerBase.direction = None,
                      CustomerBase.id_department = 1, CustomerBase.id_city = 1\<rparr>,
      POST_barbers \<lparr>BarberBase.id_user = 2, BarberBase.id_genre = 1,
                    BarberBase.id_barbershop = None, BarberBase.id_specialty = None,
                    BarberBase.id_department = 1, BarberBase.id_city = 1,
                    BarberBase.id_barber_schedule = None, BarberBase.phone = None,
                    BarberBase.direction = None, BarberBase.points = 0\<rparr>,
      POST_staff \<lparr>StaffBase.id_barber = 1\<rparr>,
      POST_staff \<lparr>StaffBase.id_barber = 1\<rparr>,
      POST_barbershops \<lparr>BarbershopBase.id_staff = 1, BarbershopBase.phone = None\<rparr>,
      POST_appointments
        (AppointmentCreate 1 1 (Date 2025 1 10) (Time 9 0 0) (Time 10 0 0) None),
      POST_appointments
        (AppointmentCreate 1 1 (Date 2025 1 11) (Time 9 0 0) (Time 10 0 0) (Some confirmed))]"

definition demo_db :: db where
  "demo_db =
     \<lparr>roles = [\<lparr>Role.id_role = 1, Role.name = ''admin''\<rparr>],
      genres = [\<lparr>Genre.id_genre = 1, Genre.name = ''male''\<rparr>],
      departments = [\<lparr>Department.id_department = 1, Department.name = ''Antioquia''\<rparr>],
      citys = [\<lparr>City.id_city = 1, City.name = ''Medellin'', City.id_department = 1\<rparr>],
      users =
        [\<lparr>User.id_user = 1, User.full_name = ''Ana'', User.email = ''ana@example.com'',
          User.password_hash = Some ''secret'', User.id_role = Some 1\<rparr>,
         \<lparr>User.id_user = 2, User.full_name = ''Luis'', User.email = ''luis@example.com'',
          User.password_hash = Some ''hunter2'', User.id_role = None\<rparr>],
      specialties = [],
      barber_schedule = [],
      customers =
        [\<lparr>Customer.id_customer = 1, Customer.id_user = 1, Customer.id_genre = 1,
          Customer.phone = None, Customer.direction = None, Customer.id_department = 1,
          Customer.id_city = 1\<rparr>],
      staff = [\<lparr>Staff.id_staff = 1, Staff.id_barber = 1\<rparr>,
               \<lparr>Staff.id_staff = 2, Staff.id_barber = 1\<rparr>],
      barbershops =
        [\<lparr>Barbershop.id_barbershop = 1, Barbershop.id_staff = 1, Barbershop.phone = None\<rparr>],
      barbers =
        [\<lparr>Barber.id_barber = 1, Barber.id_user = 2, Barber.id_genre = 1,
          Barber.id_barbershop = None, Barber.id_specialty = None, Barber.id_department = 1,
          Barber.id_city = 1, Barber.id_barber_schedule = None, Barber.phone = None,
          Barber.direction = None, Barber.points = 0\<rparr>],
      locations = [],
      appointment =
        [\<lparr>Appointment.id_appointment = 1, Appointment.id_customer = 1,
          Appointment.id_barber = 1, Appointment.appointment_date = Date 2025 1 10,
          Appointment.start_time = Time 9 0 0, Appointment.end_time = Time 10 0 0,
          Appointment.status = Some pending\<rparr>,
         \<lparr>Appointment.id_appointment = 2, Appointment.id_customer = 1,
          Appointment.id_barber = 1, Appointment.appointment_date = Date 2025 1 11,
          Appointment.start_time = Time 9 0 0, Appointment.end_time = Time 10 0 0,
          Appointment.status = Some confirmed\<rparr>]\<rparr>"

section \<open>Properties\<close>

subsection \<open>Helper lemmas\<close>

lemma demo_db_reachable: "foldl app empty_db demo_requests = demo_db"
  by (simp add: demo_requests_def demo_db_def empty_db_def AppointmentCreate_def
      create_role_def create_genre_def create_department_def create_city_def create_user_def
      create_customer_def create_barber_def create_staff_def create_barbershop_def
      create_appointment_def autoincrement_def foreign_key_def foreign_key_opt_def
      Column_String_def Column_Integer_def Column_String_opt_def Column_Integer_opt_def
      Let_def)

lemma length_filter_distinct_key:
  "distinct (map f xs) \<Longrightarrow> x \<in> set xs
   \<Longrightarrow> length (filter (\<lambda>r. f r \<noteq> f x) xs) + 1 = length xs"
proof (induction xs)
  case Nil
  then show ?case by simp
next
  case (Cons y ys)
  show ?case
  proof (cases "f y = f x")
    case True
    with Cons.prems have "\<forall>r \<in> set ys. f r \<noteq> f x"
      by (metis distinct.simps(2) image_eqI list.simps(9) set_map)
    then have "filter (\<lambda>r. f r \<noteq> f x) ys = ys"
      by (simp add: filter_id_conv)
    with True show ?thesis by simp
  next
    case False
    with Cons show ?thesis by auto
  qed
qed



lemma demo_db_appointment_ids:
  "map Appointment.id_appointment (appointment demo_db) = [1, 2]"
  by (simp add: demo_db_def)

lemma demo_db_staff:
  "staff demo_db = [\<lparr>Staff.id_staff = 1, Staff.id_barber = 1\<rparr>,
                    \<lparr>Staff.id_staff = 2, Staff.id_barber = 1\<rparr>]"
  "map Barbershop.id_staff (barbershops demo_db) = [1]"
  by (simp_all add: demo_db_def)

lemma fold_max_ge: "(a::int) \<le> fold max ids a \<and> (\<forall>x \<in> set ids. x \<le> fold max ids a)"
proof (induction ids arbitrary: a)
  case Nil
  then show ?case by simp
next
  case (Cons y ys)
  from Cons.IH [of "max y a"] show ?case
    by auto
qed

lemma autoincrement_fresh: "autoincrement ids \<notin> set ids"
  using fold_max_ge [of 0 ids] by (auto simp: autoincrement_def)

lemma autoincrement_fresh_map: "autoincrement (map f rows) \<notin> f ` set rows"
  using autoincrement_fresh [of "map f rows"] by simp

text \<open>
  No route breaks the primary key of \<open>staff\<close>: identifiers that are distinct stay
  distinct.
\<close>

lemma staff_primary_key_preserved:
  "distinct (map Staff.id_staff (staff s))
   \<Longrightarrow> distinct (map Staff.id_staff (staff (app s r)))"
  by (cases r)
     (simp_all add: create_role_def read_roles_def create_genre_def read_genres_def
         create_department_def read_departments_def create_city_def read_cities_def
         read_cities_by_department_def create_user_def read_users_def read_user_def
         create_customer_def read_customers_def read_customer_def create_specialty_def
         read_specialties_def create_barber_schedule_def read_barber_schedules_def
         create_barber_def read_barbers_def read_barber_def read_barbers_by_city_def
         create_staff_def read_staff_def read_staff_by_id_def read_staff_by_barber_def
         delete_staff_def create_barbershop_def read_barbershops_def create_location_def
         read_locations_def create_appointment_def read_appointments_def
         read_appointment_def read_appointments_by_customer_def
         read_appointments_by_barber_def update_appointment_status_def read_root_def
         health_check_def get_stats_def autoincrement_fresh_map distinct_map_filter
         Let_def split: option.splits)

subsection \<open>Appointment status\<close>

text \<open>
  C1. When an appointment with the given id exists, \<open>update_appointment_status\<close> keeps the
  number and order of the appointment rows, keeps every field other than \<open>status\<close> of every
  row, sets \<open>status\<close> of the row with that id to the new value, leaves every other
  appointment row as it was, and leaves every other table as it was.
\<close>

theorem update_status_frame:
  assumes "appointment_id \<in> set (map Appointment.id_appointment (appointment s))"
  shows "length (appointment (fst (update_appointment_status s appointment_id st)))
           = length (appointment s)
       \<and> (\<forall>k < length (appointment s).
            let a = appointment s ! k;
                a' = appointment (fst (update_appointment_status s appointment_id st)) ! k
            in Appointment.id_appointment a' = Appointment.id_appointment a
             \<and> Appointment.id_customer a' = Appointment.id_customer a
             \<and> Appointment.id_barber a' = Appointment.id_barber a
             \<and> Appointment.appointment_date a' = Appointment.appointment_date a
             \<and> Appointment.start_time a' = Appointment.start_time a
             \<and> Appointment.end_time a' = Appointment.end_time a
             \<and> (Appointment.id_appointment a = appointment_id
                  \<longrightarrow> Appointment.status a' = Some st)
             \<and> (Appointment.id_appointment a \<noteq> appointment_id \<longrightarrow> a' = a))
       \<and> (fst (update_appointment_status s appointment_id st))
            \<lparr>appointment := appointment s\<rparr> = s"
proof -
  obtain a0 where f:
    "find (\<lambda>a. Appointment.id_appointment a = appointment_id) (appointment s) = Some a0"
    using assms
    by (cases "find (\<lambda>a. Appointment.id_appointment a = appointment_id) (appointment s)")
       (auto simp: find_None_iff)
  then have i: "Appointment.id_appointment a0 = appointment_id"
    by (auto simp: find_Some_iff)
  show ?thesis
    by (simp add: update_appointment_status_def f i Let_def)
qed

theorem update_status_frame_witness:
  "2 \<in> set (map Appointment.id_appointment (appointment demo_db))
 \<and> length (appointment (fst (update_appointment_status demo_db 2 cancelled))) = 2
 \<and> (fst (update_appointment_status demo_db 2 cancelled))
      \<lparr>appointment := appointment demo_db\<rparr> = demo_db"
proof -
  have h: "2 \<in> set (map Appointment.id_appointment (appointment demo_db))"
    by (simp add: demo_db_appointment_ids)
  have l: "length (appointment demo_db) = 2"
    by (simp add: demo_db_def)
  from update_status_frame [OF h, of cancelled] h l show ?thesis
    by simp
qed

text \<open>
  C2. \<open>update_appointment_status\<close> answers 404 "Appointment not found" exactly when no
  appointment row has the given id, and then the database is unchanged; when a row has the
  id, the call succeeds for every status value, whatever the status was before, and
  afterwards every row with that id holds the new status.
\<close>

theorem update_status_not_found_iff:
  "(snd (update_appointment_status s appointment_id st)
      = Inl (HTTPException 404 ''Appointment not found'')
    \<longleftrightarrow> appointment_id \<notin> set (map Appointment.id_appointment (appointment s)))
   \<and> (appointment_id \<notin> set (map Appointment.id_appointment (appointment s))
        \<longrightarrow> fst (update_appointment_status s appointment_id st) = s)
   \<and> (appointment_id \<in> set (map Appointment.id_appointment (appointment s))
        \<longrightarrow> snd (update_appointment_status s appointment_id st)
              = Inr [(''message'', ''Appointment status updated successfully'')]
          \<and> appointment_id
              \<in> set (map Appointment.id_appointment
                       (appointment (fst (update_appointment_status s appointment_id st))))
          \<and> (\<forall>a \<in> set (appointment (fst (update_appointment_status s appointment_id st))).
                Appointment.id_appointment a = appointment_id
                \<longrightarrow> Appointment.status a = Some st))"
proof (cases "find (\<lambda>a. Appointment.id_appointment a = appointment_id) (appointment s)")
  case None
  then have "appointment_id \<notin> set (map Appointment.id_appointment (appointment s))"
    by (auto simp: find_None_iff)
  with None show ?thesis
    by (simp add: update_appointment_status_def)
next
  case (Some a0)
  then have i: "Appointment.id_appointment a0 = appointment_id"
    and m: "a0 \<in> set (appointment s)"
    by (auto simp: find_Some_iff)
  then have "appointment_id \<in> set (map Appointment.id_appointment (appointment s))"
    by force
  with Some i show ?thesis
    by (auto simp: update_appointment_status_def)
qed

theorem update_status_not_found_iff_witness:
  "7 \<notin> set (map Appointment.id_appointment (appointment demo_db))
 \<and> snd (update_appointment_status demo_db 7 done')
     = Inl (HTTPException 404 ''Appointment not found'')
 \<and> fst (update_appointment_status demo_db 7 done') = demo_db
 \<and> 1 \<in> set (map Appointment.id_appointment (appointment demo_db))
 \<and> snd (update_appointment_status demo_db 1 done')
     = Inr [(''message'', ''Appointment status updated successfully'')]"
proof -
  have a: "7 \<notin> set (map Appointment.id_appointment (appointment demo_db))"
    by (simp add: demo_db_appointment_ids)
  have p: "1 \<in> set (map Appointment.id_appointment (appointment demo_db))"
    by (simp add: demo_db_appointment_ids)
  from update_status_not_found_iff [of demo_db 7 done']
       update_status_not_found_iff [of demo_db 1 done'] a p
  show ?thesis
    by blast
qed

text \<open>
  C3. An appointment created from a payload that omits \<open>status\<close> is stored with status
  \<open>pending\<close>, appended to the table; and a request to any route other than
  \<open>PATCH /appointments/{id}/status\<close> leaves every appointment row that was in the table
  exactly as it was, its status included.
\<close>

theorem status_default_and_only_update:
  "(\<forall>c b d t1 t2 s' row.
      create_appointment s (AppointmentCreate c b d t1 t2 None) = (s', Inr row)
      \<longrightarrow> Appointment.status row = Some pending \<and> appointment s' = appointment s @ [row])
 \<and> ((\<forall>k st. r \<noteq> PATCH_appointment_status k st)
      \<longrightarrow> take (length (appointment s)) (appointment (app s r)) = appointment s)"
proof
  show "\<forall>c b d t1 t2 s' row.
      create_appointment s (AppointmentCreate c b d t1 t2 None) = (s', Inr row)
      \<longrightarrow> Appointment.status row = Some pending \<and> appointment s' = appointment s @ [row]"
    by (auto simp: create_appointment_def AppointmentCreate_def Let_def split: if_splits)
next
  show "(\<forall>k st. r \<noteq> PATCH_appointment_status k st)
      \<longrightarrow> take (length (appointment s)) (appointment (app s r)) = appointment s"
    by (cases r)
       (simp_all add: create_role_def read_roles_def create_genre_def read_genres_def
         create_department_def read_departments_def create_city_def read_cities_def
         read_cities_by_department_def create_user_def read_users_def read_user_def
         create_customer_def read_customers_def read_customer_def create_specialty_def
         read_specialties_def create_barber_schedule_def read_barber_schedules_def
         create_barber_def read_barbers_def read_barber_def read_barbers_by_city_def
         create_staff_def read_staff_def read_staff_by_id_def read_staff_by_barber_def
         delete_staff_def create_barbershop_def read_barbershops_def create_location_def
         read_locations_def create_appointment_def read_appointments_def
         read_appointment_def read_appointments_by_customer_def
         read_appointments_by_barber_def read_root_def health_check_def get_stats_def
         Let_def split: option.splits)
qed

theorem status_default_and_only_update_witness:
  "(\<forall>k st. POST_appointments
              (AppointmentCreate 1 1 (Date 2025 1 12) (Time 9 0 0) (Time 10 0 0) None)
            \<noteq> PATCH_appointment_status k st)
 \<and> take 2 (appointment
       (app demo_db
          (POST_appointments
             (AppointmentCreate 1 1 (Date 2025 1 12) (Time 9 0 0) (Time 10 0 0) None))))
     = appointment demo_db
 \<and> (\<exists>s' row.
       create_appointment demo_db
         (AppointmentCreate 1 1 (Date 2025 1 12) (Time 9 0 0) (Time 10 0 0) None)
         = (s', Inr row)
       \<and> Appointment.status row = Some pending)"
proof -
  let ?p = "AppointmentCreate 1 1 (Date 2025 1 12) (Time 9 0 0) (Time 10 0 0) None"
  have h: "\<forall>k st. POST_appointments ?p \<noteq> PATCH_appointment_status k st"
    by simp
  have l: "length (appointment demo_db) = 2"
    by (simp add: demo_db_def)
  have "\<exists>s' row. create_appointment demo_db ?p = (s', Inr row)"
    by (simp add: create_appointment_def AppointmentCreate_def demo_db_def foreign_key_def
        Column_Integer_def Let_def)
  then obtain s' row where c: "create_appointment demo_db ?p = (s', Inr row)"
    by blast
  from status_default_and_only_update [of demo_db "POST_appointments ?p"] c
  have "Appointment.status row = Some pending"
    by blast
  with c have e: "\<exists>s' row. create_appointment demo_db ?p = (s', Inr row)
      \<and> Appointment.status row = Some pending"
    by blast
  from status_default_and_only_update [of demo_db "POST_appointments ?p"] h l
  have "take 2 (appointment (app demo_db (POST_appointments ?p))) = appointment demo_db"
    by simp
  with h e show ?thesis
    by blast
qed

subsection \<open>Users\<close>



text \<open>
  C5. When a user row already holds the payload's email, \<open>create_user\<close> fails and the
  database, the \<open>users\<close> table in particular, is unchanged: no row is added. The failure
  is the integrity error of the unique index whenever the payload's values fit their
  columns, and the data error of the column that is too narrow otherwise.
\<close>

theorem create_user_duplicate_email:
  assumes "UserBase.email user \<in> set (map User.email (users s))"
  shows "snd (create_user s user)
           = Inl (if Column_String 255 (UserBase.full_name user)
                     \<and> Column_String 255 (UserBase.email user)
                     \<and> Column_String 255 (UserCreate.password user)
                     \<and> Column_Integer_opt (UserBase.id_role user)
                  then IntegrityError else DataError)
       \<and> users (fst (create_user s user)) = users s
       \<and> fst (create_user s user) = s"
  using assms by (simp add: create_user_def Column_String_opt_def Let_def)

theorem create_user_duplicate_email_witness:
  "''ana@example.com'' \<in> set (map User.email (users demo_db))
 \<and> snd (create_user demo_db
          \<lparr>UserBase.full_name = ''Another Ana'', UserBase.email = ''ana@example.com'',
           UserBase.id_role = None, UserCreate.password = ''x''\<rparr>) = Inl IntegrityError
 \<and> users (fst (create_user demo_db
          \<lparr>UserBase.full_name = ''Another Ana'', UserBase.email = ''ana@example.com'',
           UserBase.id_role = None, UserCreate.password = ''x''\<rparr>)) = users demo_db"
proof -
  let ?u = "\<lparr>UserBase.full_name = ''Another Ana'', UserBase.email = ''ana@example.com'',
             UserBase.id_role = None, UserCreate.password = ''x''\<rparr>"
  have h: "''ana@example.com'' \<in> set (map User.email (users demo_db))"
    by (simp add: demo_db_def)
  then have "UserBase.email ?u \<in> set (map User.email (users demo_db))"
    by simp
  from create_user_duplicate_email [OF this] h show ?thesis
    by (simp add: Column_String_def Column_Integer_opt_def)
qed




subsection \<open>Filters, staff and statistics\<close>

text \<open>
  C6. Each of the four filter endpoints (cities by department, barbers by city,
  appointments by customer, appointments by barber) leaves the database as it is and
  returns rows of its table such that a row is returned exactly when it is in the table
  and its foreign-key field equals the key; the result is empty exactly when no row of the
  table matches.
\<close>

theorem filter_endpoints:
  "(\<exists>rows. read_cities_by_department s k = (s, Inr rows)
      \<and> set rows = {c \<in> set (citys s). City.id_department c = k}
      \<and> (rows = [] \<longleftrightarrow> (\<forall>c \<in> set (citys s). City.id_department c \<noteq> k)))
 \<and> (\<exists>rows. read_barbers_by_city s k = (s, Inr rows)
      \<and> set rows = {b \<in> set (barbers s). Barber.id_city b = k}
      \<and> (rows = [] \<longleftrightarrow> (\<forall>b \<in> set (barbers s). Barber.id_city b \<noteq> k)))
 \<and> (\<exists>rows. read_appointments_by_customer s k = (s, Inr rows)
      \<and> set rows = {a \<in> set (appointment s). Appointment.id_customer a = k}
      \<and> (rows = [] \<longleftrightarrow> (\<forall>a \<in> set (appointment s). Appointment.id_customer a \<noteq> k)))
 \<and> (\<exists>rows. read_appointments_by_barber s k = (s, Inr rows)
      \<and> set rows = {a \<in> set (appointment s). Appointment.id_barber a = k}
      \<and> (rows = [] \<longleftrightarrow> (\<forall>a \<in> set (appointment s). Appointment.id_barber a \<noteq> k)))"
  by (simp add: read_cities_by_department_def read_barbers_by_city_def
      read_appointments_by_customer_def read_appointments_by_barber_def filter_empty_conv)

theorem filter_endpoints_witness:
  "5 \<notin> set (map City.id_department (citys demo_db))
 \<and> read_cities_by_department demo_db 5 = (demo_db, Inr [])
 \<and> (\<exists>rows. read_appointments_by_customer demo_db 1 = (demo_db, Inr rows)
       \<and> set rows = set (appointment demo_db))"
proof -
  have h: "\<forall>c \<in> set (citys demo_db). City.id_department c \<noteq> 5"
    by (simp add: demo_db_def)
  have m: "{a \<in> set (appointment demo_db). Appointment.id_customer a = 1}
             = set (appointment demo_db)"
    by (auto simp: demo_db_def)
  from filter_endpoints [of demo_db 5] h
  have a: "read_cities_by_department demo_db 5 = (demo_db, Inr [])"
    by auto
  from filter_endpoints [of demo_db 1] m
  have b: "\<exists>rows. read_appointments_by_customer demo_db 1 = (demo_db, Inr rows)
       \<and> set rows = set (appointment demo_db)"
    by auto
  have n: "5 \<notin> set (map City.id_department (citys demo_db))"
    by (simp add: demo_db_def)
  from n a b show ?thesis
    by blast
qed

text \<open>
  C7. \<open>read_staff_by_barber\<close> returns a staff row exactly when that row is the first one in
  storage order whose \<open>id_barber\<close> is the given id (so with several matching rows the first
  is the one returned), answers 404 "Staff not found for this barber" exactly when no staff
  row references the barber, and never changes the database.
\<close>

theorem staff_by_barber_first_match:
  "(read_staff_by_barber s barber_id = (s, Inr r)
      \<longleftrightarrow> (\<exists>i < length (staff s). staff s ! i = r \<and> Staff.id_barber r = barber_id
             \<and> (\<forall>j < i. Staff.id_barber (staff s ! j) \<noteq> barber_id)))
 \<and> (read_staff_by_barber s barber_id
       = (s, Inl (HTTPException 404 ''Staff not found for this barber''))
      \<longleftrightarrow> barber_id \<notin> set (map Staff.id_barber (staff s)))
 \<and> (\<exists>res. read_staff_by_barber s barber_id = (s, res))"
proof (cases "find (\<lambda>r. Staff.id_barber r = barber_id) (staff s)")
  case None
  then have n: "\<forall>x \<in> set (staff s). Staff.id_barber x \<noteq> barber_id"
    by (simp add: find_None_iff)
  then have "\<not> (\<exists>i < length (staff s). staff s ! i = r \<and> Staff.id_barber r = barber_id
             \<and> (\<forall>j < i. Staff.id_barber (staff s ! j) \<noteq> barber_id))"
    by (metis nth_mem)
  moreover from n have "barber_id \<notin> set (map Staff.id_barber (staff s))"
    by auto
  ultimately show ?thesis
    using None by (simp add: read_staff_by_barber_def)
next
  case (Some r0)
  then have "barber_id \<in> set (map Staff.id_barber (staff s))"
    by (force simp: find_Some_iff)
  moreover have "r0 = r
      \<longleftrightarrow> (\<exists>i < length (staff s). staff s ! i = r \<and> Staff.id_barber r = barber_id
             \<and> (\<forall>j < i. Staff.id_barber (staff s ! j) \<noteq> barber_id))"
    using Some unfolding find_Some_iff by (metis linorder_neqE_nat)
  ultimately show ?thesis
    using Some by (simp add: read_staff_by_barber_def)
qed

theorem staff_by_barber_first_match_witness:
  "read_staff_by_barber demo_db 1
     = (demo_db, Inr \<lparr>Staff.id_staff = 1, Staff.id_barber = 1\<rparr>)
 \<and> read_staff_by_barber demo_db 9
     = (demo_db, Inl (HTTPException 404 ''Staff not found for this barber''))"
proof -
  let ?r = "\<lparr>Staff.id_staff = 1, Staff.id_barber = 1\<rparr>"
  have "0 < length (staff demo_db) \<and> staff demo_db ! 0 = ?r \<and> Staff.id_barber ?r = 1
          \<and> (\<forall>j < 0. Staff.id_barber (staff demo_db ! j) \<noteq> 1)"
    by (simp add: demo_db_staff)
  then have a: "\<exists>i < length (staff demo_db). staff demo_db ! i = ?r \<and> Staff.id_barber ?r = 1
          \<and> (\<forall>j < i. Staff.id_barber (staff demo_db ! j) \<noteq> 1)"
    by (rule exI [of _ 0])
  have b: "9 \<notin> set (map Staff.id_barber (staff demo_db))"
    by (simp add: demo_db_staff)
  from staff_by_barber_first_match [of demo_db 1 ?r]
       staff_by_barber_first_match [of demo_db 9 ?r] a b
  show ?thesis
    by blast
qed

text \<open>
  C8, as the code has it. For a staff id present in the table that no barbershop row
  references, \<open>delete_staff\<close> confirms, removes the rows with that id (exactly one row when
  the ids are distinct, as a primary key makes them), changes nothing else, and a following
  \<open>read_staff_by_id\<close> answers 404. For a staff id present in the table that a barbershop
  row references, the commit fails with an integrity error and the database is unchanged.
  For an id absent from the table, \<open>delete_staff\<close> answers 404 "Staff not found" and the
  database is unchanged.
\<close>

theorem delete_staff_unreferenced:
  "(staff_id \<in> set (map Staff.id_staff (staff s))
      \<and> staff_id \<notin> set (map Barbershop.id_staff (barbershops s))
    \<longrightarrow> snd (delete_staff s staff_id) = Inr [(''message'', ''Staff deleted successfully'')]
      \<and> staff (fst (delete_staff s staff_id))
          = filter (\<lambda>r. Staff.id_staff r \<noteq> staff_id) (staff s)
      \<and> (distinct (map Staff.id_staff (staff s))
           \<longrightarrow> length (staff (fst (delete_staff s staff_id))) + 1 = length (staff s))
      \<and> (fst (delete_staff s staff_id))\<lparr>staff := staff s\<rparr> = s
      \<and> snd (read_staff_by_id (fst (delete_staff s staff_id)) staff_id)
          = Inl (HTTPException 404 ''Staff not found''))
 \<and> (staff_id \<in> set (map Staff.id_staff (staff s))
      \<and> staff_id \<in> set (map Barbershop.id_staff (barbershops s))
    \<longrightarrow> delete_staff s staff_id = (s, Inl IntegrityError))
 \<and> (staff_id \<notin> set (map Staff.id_staff (staff s))
    \<longrightarrow> delete_staff s staff_id = (s, Inl (HTTPException 404 ''Staff not found'')))"
proof (cases "find (\<lambda>r. Staff.id_staff r = staff_id) (staff s)")
  case None
  then have "staff_id \<notin> set (map Staff.id_staff (staff s))"
    by (auto simp: find_None_iff)
  with None show ?thesis
    by (simp add: delete_staff_def)
next
  case (Some r0)
  then have i: "Staff.id_staff r0 = staff_id" and m: "r0 \<in> set (staff s)"
    by (auto simp: find_Some_iff)
  then have p: "staff_id \<in> set (map Staff.id_staff (staff s))"
    by force
  have g: "find (\<lambda>r. Staff.id_staff r = staff_id)
             (filter (\<lambda>r. Staff.id_staff r \<noteq> staff_id) (staff s)) = None"
    by (simp add: find_None_iff)
  have l: "distinct (map Staff.id_staff (staff s))
       \<Longrightarrow> length (filter (\<lambda>r. Staff.id_staff r \<noteq> staff_id) (staff s)) + 1
             = length (staff s)"
    using length_filter_distinct_key [of Staff.id_staff "staff s" r0] m i by simp
  show ?thesis
    using Some i p g l by (simp add: delete_staff_def read_staff_by_id_def)
qed

theorem delete_staff_unreferenced_witness:
  "2 \<in> set (map Staff.id_staff (staff demo_db))
 \<and> 2 \<notin> set (map Barbershop.id_staff (barbershops demo_db))
 \<and> distinct (map Staff.id_staff (staff demo_db))
 \<and> snd (delete_staff demo_db 2) = Inr [(''message'', ''Staff deleted successfully'')]
 \<and> length (staff (fst (delete_staff demo_db 2))) + 1 = length (staff demo_db)
 \<and> snd (read_staff_by_id (fst (delete_staff demo_db 2)) 2)
     = Inl (HTTPException 404 ''Staff not found'')
 \<and> 8 \<notin> set (map Staff.id_staff (staff demo_db))
 \<and> delete_staff demo_db 8 = (demo_db, Inl (HTTPException 404 ''Staff not found''))"
proof -
  have a: "2 \<in> set (map Staff.id_staff (staff demo_db))"
    and b: "2 \<notin> set (map Barbershop.id_staff (barbershops demo_db))"
    and d: "distinct (map Staff.id_staff (staff demo_db))"
    and n: "8 \<notin> set (map Staff.id_staff (staff demo_db))"
    by (simp_all add: demo_db_staff)
  from delete_staff_unreferenced [of 2 demo_db] delete_staff_unreferenced [of 8 demo_db]
       a b d n
  show ?thesis
    by blast
qed

text \<open>
  C8, as the claim states it, fails in the database built through the API: staff row 1
  is present and barbershop 1 references it, and \<open>delete_staff\<close> neither confirms nor
  removes the row; the following \<open>read_staff_by_id\<close> still returns it.
\<close>

theorem delete_staff_referenced_counterexample:
  "1 \<in> set (map Staff.id_staff (staff demo_db))
 \<and> delete_staff demo_db 1 = (demo_db, Inl IntegrityError)
 \<and> snd (delete_staff demo_db 1) \<noteq> Inr [(''message'', ''Staff deleted successfully'')]
 \<and> read_staff_by_id (fst (delete_staff demo_db 1)) 1
     = (demo_db, Inr \<lparr>Staff.id_staff = 1, Staff.id_barber = 1\<rparr>)
 \<and> snd (read_staff_by_id (fst (delete_staff demo_db 1)) 1)
     \<noteq> Inl (HTTPException 404 ''Staff not found'')"
  by (simp add: delete_staff_def read_staff_by_id_def demo_db_staff)

text \<open>
  C9. \<open>get_stats\<close> leaves the database as it is and returns nine counters, named users,
  customers, barbers, staff, appointments, barbershops, specialties, departments and
  cities in this order, each the number of rows of its table.
\<close>

theorem stats_counts:
  "fst (get_stats s) = s
 \<and> (\<exists>kv. snd (get_stats s) = Inr kv
      \<and> map fst kv = [''users'', ''customers'', ''barbers'', ''staff'', ''appointments'',
                      ''barbershops'', ''specialties'', ''departments'', ''cities'']
      \<and> map_of kv ''users'' = Some (int (length (users s)))
      \<and> map_of kv ''customers'' = Some (int (length (customers s)))
      \<and> map_of kv ''barbers'' = Some (int (length (barbers s)))
      \<and> map_of kv ''staff'' = Some (int (length (staff s)))
      \<and> map_of kv ''appointments'' = Some (int (length (appointment s)))
      \<and> map_of kv ''barbershops'' = Some (int (length (barbershops s)))
      \<and> map_of kv ''specialties'' = Some (int (length (specialties s)))
      \<and> map_of kv ''departments'' = Some (int (length (departments s)))
      \<and> map_of kv ''cities'' = Some (int (length (citys s))))"
  by (simp add: get_stats_def)

theorem stats_counts_witness:
  "fst (get_stats demo_db) = demo_db
 \<and> (\<exists>kv. snd (get_stats demo_db) = Inr kv
      \<and> map_of kv ''users'' = Some 2
      \<and> map_of kv ''staff'' = Some 2
      \<and> map_of kv ''specialties'' = Some 0)"
proof -
  have l: "length (users demo_db) = 2" "length (staff demo_db) = 2"
    "length (specialties demo_db) = 0"
    by (simp_all add: demo_db_def)
  from stats_counts [of demo_db] l show ?thesis
    by auto
qed

end
